theory Spec2Isabelle
  imports Main "HOL-Library.Word"
begin

section \<open>JavaScript values\<close>

text \<open>
  A JavaScript string is a sequence of UTF-16 code units. Literals of the source are
  ASCII and are written \<open>js ''...''\<close>.
\<close>

type_synonym jsstring = "16 word list"

definition js :: "string \<Rightarrow> jsstring" where
  "js s = map (\<lambda>c. of_nat (of_char c)) s"

text \<open>
  The objects handed to \<open>JSON.stringify\<close>. The serialiser itself belongs to the
  platform; the operations that call it take it as the parameter \<open>stringify\<close>.
\<close>

datatype json =
    JNull
  | JBool bool
  | JNum int
  | JStr jsstring
  | JArr "json list"
  | JObj "(jsstring \<times> json) list"

section \<open>The connection manager (createWebSocketManager)\<close>

text \<open>
  The browser side of the manager: every \<open>WebSocket\<close> object ever created, with its
  \<open>readyState\<close>; the timers that are live (\<open>setInterval\<close> and \<open>setTimeout\<close>
  share one pool of handles); the frames passed to \<open>WebSocket.send\<close>, oldest first.
  Sockets and timers are named by handles taken from the counter \<open>fresh\<close>.
\<close>

datatype readyState = CONNECTING | OPEN | CLOSING | CLOSED

datatype timer = Interval nat | Timeout nat

record manager =
  ws :: "nat option"
  pingInterval :: "nat option"
  reconnectTimeout :: "nat option"
  connectionCount :: int
  notifications :: nat
  sockets :: "nat \<rightharpoonup> readyState"
  timers :: "(nat \<times> timer) list"
  outbox :: "(nat \<times> jsstring) list"
  fresh :: nat

definition createWebSocketManager :: manager where
  "createWebSocketManager =
     \<lparr>ws = None, pingInterval = None, reconnectTimeout = None, connectionCount = 0,
      notifications = 0, sockets = Map.empty, timers = [], outbox = [], fresh = 0\<rparr>"

text \<open>\<open>ws?.readyState\<close>: undefined (\<open>None\<close>) when \<open>ws\<close> is null.\<close>

definition ws_readyState :: "manager \<Rightarrow> readyState option" where
  "ws_readyState m = (case ws m of None \<Rightarrow> None | Some s \<Rightarrow> sockets m s)"

definition getSnapshot :: "manager \<Rightarrow> bool" where
  "getSnapshot m = (ws_readyState m = Some OPEN)"

text \<open>
  \<open>notifyListeners\<close> calls every subscribed listener; the listeners only re-read
  \<open>getSnapshot\<close>, so the model counts the rounds.
\<close>

definition notifyListeners :: "manager \<Rightarrow> manager" where
  "notifyListeners m = m\<lparr>notifications := Suc (notifications m)\<rparr>"

text \<open>\<open>clearInterval\<close> and \<open>clearTimeout\<close>: the timer with that handle is gone.\<close>

definition clearTimer :: "nat \<Rightarrow> (nat \<times> timer) list \<Rightarrow> (nat \<times> timer) list" where
  "clearTimer t ts = filter (\<lambda>p. fst p \<noteq> t) ts"

definition cleanup :: "manager \<Rightarrow> manager" where
  "cleanup m =
     (case pingInterval m of
        None \<Rightarrow> m
      | Some t \<Rightarrow> m\<lparr>timers := clearTimer t (timers m), pingInterval := None\<rparr>)"

definition clearReconnect :: "manager \<Rightarrow> manager" where
  "clearReconnect m =
     (case reconnectTimeout m of
        None \<Rightarrow> m
      | Some t \<Rightarrow> m\<lparr>timers := clearTimer t (timers m), reconnectTimeout := None\<rparr>)"

definition connect :: "manager \<Rightarrow> manager" where
  "connect m =
     (let m1 = m\<lparr>connectionCount := connectionCount m + 1\<rparr> in
      if ws_readyState m1 = Some OPEN \<or> ws_readyState m1 = Some CONNECTING then m1
      else
        let m2 = clearReconnect m1; s = fresh m2 in
        m2\<lparr>ws := Some s, sockets := (sockets m2)(s \<mapsto> CONNECTING), fresh := Suc s\<rparr>)"

text \<open>The object of the keep-alive frame, \<open>{ type: "ping" }\<close>.\<close>

definition ping :: json where
  "ping = JObj [(js ''type'', JStr (js ''ping''))]"

text \<open>The callback of the keep-alive interval.\<close>

definition ping_tick :: "(json \<Rightarrow> jsstring) \<Rightarrow> manager \<Rightarrow> manager" where
  "ping_tick stringify m =
     (case ws m of
        None \<Rightarrow> m
      | Some s \<Rightarrow>
          if sockets m s = Some OPEN then m\<lparr>outbox := outbox m @ [(s, stringify ping)]\<rparr>
          else m)"

definition onopen :: "manager \<Rightarrow> manager" where
  "onopen m =
     (let m1 = notifyListeners m; t = fresh m1 in
      m1\<lparr>pingInterval := Some t, timers := timers m1 @ [(t, Interval 30000)],
         fresh := Suc t\<rparr>)"

definition onclose :: "manager \<Rightarrow> manager" where
  "onclose m =
     (let m1 = notifyListeners (cleanup m) in
      if connectionCount m1 > 0 then
        let t = fresh m1 in
        m1\<lparr>reconnectTimeout := Some t, timers := timers m1 @ [(t, Timeout 3000)],
           fresh := Suc t\<rparr>
      else m1)"

text \<open>
  \<open>WebSocket.close()\<close>: a socket that is connecting or open starts closing (its close
  event comes later); on a socket that is closing or closed the call does nothing.
\<close>

definition socket_close :: "nat \<Rightarrow> manager \<Rightarrow> manager" where
  "socket_close s m =
     (if sockets m s = Some CONNECTING \<or> sockets m s = Some OPEN
      then m\<lparr>sockets := (sockets m)(s \<mapsto> CLOSING)\<rparr> else m)"

definition disconnect :: "manager \<Rightarrow> manager" where
  "disconnect m =
     (let m1 = m\<lparr>connectionCount := connectionCount m - 1\<rparr> in
      if connectionCount m1 \<le> 0 then
        let m2 = clearReconnect (cleanup (m1\<lparr>connectionCount := 0\<rparr>)) in
        (case ws m2 of
           None \<Rightarrow> m2
         | Some s \<Rightarrow> (socket_close s m2)\<lparr>ws := None\<rparr>)
      else m1)"

definition send :: "(json \<Rightarrow> jsstring) \<Rightarrow> json \<Rightarrow> manager \<Rightarrow> bool \<times> manager" where
  "send stringify data m =
     (case ws m of
        None \<Rightarrow> (False, m)
      | Some s \<Rightarrow>
          if sockets m s \<noteq> Some OPEN then (False, m)
          else (True, m\<lparr>outbox := outbox m @ [(s, stringify data)]\<rparr>))"

subsection \<open>What can happen to the manager\<close>

text \<open>
  The calls of its consumers (\<open>Connect\<close>, \<open>Disconnect\<close>, \<open>Send\<close>) and the
  events of the browser: a connecting socket opens; the peer starts the closing
  handshake of an open socket; a socket that is not yet closed closes (a failed
  connection closes without ever opening); a live timer fires. An event that cannot
  happen in the current state (a socket or timer that does not exist, a socket in the
  wrong state) leaves the state as it is. An incoming frame changes nothing in the
  manager: it is parsed and handed to the message listeners (\<open>handleMessage\<close> below).
\<close>

datatype event =
    Connect
  | Disconnect
  | Send json
  | SockOpen nat
  | SockClosing nat
  | SockClose nat
  | Fire nat

text \<open>
  A timeout fires once and is gone, and its callback calls \<open>connect\<close>; an interval
  stays and runs the keep-alive callback.
\<close>

definition fire :: "(json \<Rightarrow> jsstring) \<Rightarrow> nat \<Rightarrow> manager \<Rightarrow> manager" where
  "fire stringify t m =
     (case map_of (timers m) t of
        None \<Rightarrow> m
      | Some (Timeout d) \<Rightarrow> connect (m\<lparr>timers := clearTimer t (timers m)\<rparr>)
      | Some (Interval p) \<Rightarrow> ping_tick stringify m)"

definition step :: "(json \<Rightarrow> jsstring) \<Rightarrow> event \<Rightarrow> manager \<Rightarrow> manager" where
  "step stringify e m =
     (case e of
        Connect \<Rightarrow> connect m
      | Disconnect \<Rightarrow> disconnect m
      | Send d \<Rightarrow> snd (send stringify d m)
      | SockOpen s \<Rightarrow>
          if sockets m s = Some CONNECTING
          then onopen (m\<lparr>sockets := (sockets m)(s \<mapsto> OPEN)\<rparr>) else m
      | SockClosing s \<Rightarrow>
          if sockets m s = Some OPEN
          then m\<lparr>sockets := (sockets m)(s \<mapsto> CLOSING)\<rparr> else m
      | SockClose s \<Rightarrow>
          if sockets m s = Some CONNECTING \<or> sockets m s = Some OPEN \<or>
             sockets m s = Some CLOSING
          then onclose (m\<lparr>sockets := (sockets m)(s \<mapsto> CLOSED)\<rparr>) else m
      | Fire t \<Rightarrow> fire stringify t m)"

definition run :: "(json \<Rightarrow> jsstring) \<Rightarrow> event list \<Rightarrow> manager \<Rightarrow> manager" where
  "run stringify es m = fold (step stringify) es m"

text \<open>Every handle in use was handed out before: it lies below \<open>fresh\<close>.\<close>

definition handles_below :: "manager \<Rightarrow> bool" where
  "handles_below m \<longleftrightarrow>
     list_all (\<lambda>p. fst p < fresh m) (timers m) \<and>
     (case pingInterval m of None \<Rightarrow> True | Some t \<Rightarrow> t < fresh m) \<and>
     (case reconnectTimeout m of None \<Rightarrow> True | Some t \<Rightarrow> t < fresh m) \<and>
     (case ws m of None \<Rightarrow> True | Some s \<Rightarrow> s < fresh m) \<and>
     (\<forall>s. fresh m \<le> s \<longrightarrow> sockets m s = None)"





text \<open>The only timers the manager ever sets: the keep-alive and the reconnect.\<close>

definition timer_ok :: "nat \<times> timer \<Rightarrow> bool" where
  "timer_ok p \<longleftrightarrow> snd p = Interval 30000 \<or> snd p = Timeout 3000"

text \<open>A serialiser to run the manager with: the first string field of an object.\<close>

definition sample_stringify :: "json \<Rightarrow> jsstring" where
  "sample_stringify j = (case j of JObj ((k, JStr v) # r) \<Rightarrow> v | _ \<Rightarrow> [])"

section \<open>The chat input (ChatInput, FileUpload)\<close>

text \<open>
  \<open>String.prototype.trim\<close> strips the white space and line terminators of ECMAScript
  from both ends.
\<close>

definition js_whitespace :: "16 word \<Rightarrow> bool" where
  "js_whitespace c \<longleftrightarrow>
     c \<in> set [0x0009, 0x000A, 0x000B, 0x000C, 0x000D, 0x0020, 0x00A0, 0x1680,
              0x2000, 0x2001, 0x2002, 0x2003, 0x2004, 0x2005, 0x2006, 0x2007, 0x2008,
              0x2009, 0x200A, 0x2028, 0x2029, 0x202F, 0x205F, 0x3000, 0xFEFF]"

definition trim :: "jsstring \<Rightarrow> jsstring" where
  "trim s = rev (dropWhile js_whitespace (rev (dropWhile js_whitespace s)))"

text \<open>The browser's \<open>File\<close>, as far as the code reads it.\<close>

record jsfile =
  file_name :: jsstring
  file_type :: jsstring
  file_size :: nat

record uploadedFile =
  uf_id :: jsstring
  uf_name :: jsstring
  uf_type :: jsstring
  uf_url :: jsstring
  uf_mime_type :: jsstring
  uf_file :: "jsfile option"
  uf_preview :: "jsstring option"

record fileAttachment =
  fa_id :: jsstring
  fa_name :: jsstring
  fa_type :: jsstring
  fa_url :: jsstring
  fa_mime_type :: jsstring

definition ACCEPTED_TYPES :: "jsstring list" where
  "ACCEPTED_TYPES =
     [js ''image/jpeg'', js ''image/png'', js ''image/gif'', js ''image/webp'',
      js ''application/pdf'']"

definition MAX_FILE_SIZE :: nat where
  "MAX_FILE_SIZE = 25 * 1024 * 1024"

text \<open>
  What \<open>handleFileSelect\<close> does to the outside, in order: an \<open>alert\<close>, a preview
  URL made for a file, a call of \<open>onUpload\<close> (the network call), a call of
  \<open>onFilesChange\<close>, a \<open>console.error\<close>, the reset of the file input.
\<close>

datatype effect =
    Alert jsstring
  | CreateObjectURL jsfile
  | OnUpload jsfile
  | OnFilesChange "uploadedFile list"
  | ConsoleError
  | ResetInput

definition unsupported_message :: "jsfile \<Rightarrow> jsstring" where
  "unsupported_message f =
     js ''File type not supported: '' @ file_name f @
     js ''. Please upload images (JPEG, PNG, GIF, WebP) or PDFs.''"

definition too_large_message :: "jsfile \<Rightarrow> jsstring" where
  "too_large_message f =
     js ''File too large: '' @ file_name f @ js ''. Maximum size is 25MB.''"

definition failed_message :: "jsfile \<Rightarrow> jsstring" where
  "failed_message f = js ''Failed to upload '' @ file_name f"

text \<open>
  The body of the loop of \<open>handleFileSelect\<close> for one file. \<open>createObjectURL\<close> and
  \<open>onUpload\<close> stand for the browser and the network: \<open>onUpload f\<close> is \<open>Inl\<close> when
  the promise rejects. \<open>files\<close> is the list the callback closed over.
\<close>

definition select_file ::
  "(jsfile \<Rightarrow> jsstring) \<Rightarrow> (jsfile \<Rightarrow> jsstring + uploadedFile) \<Rightarrow> uploadedFile list \<Rightarrow>
   jsfile \<Rightarrow> effect list" where
  "select_file createObjectURL onUpload files f =
     (if file_type f \<notin> set ACCEPTED_TYPES then [Alert (unsupported_message f)]
      else if MAX_FILE_SIZE < file_size f then [Alert (too_large_message f)]
      else
        let image = (take 6 (file_type f) = js ''image/'');
            preview = (if image then Some (createObjectURL f) else None)
        in (if image then [CreateObjectURL f] else []) @ [OnUpload f] @
           (case onUpload f of
              Inl err \<Rightarrow> [ConsoleError, Alert (failed_message f)]
            | Inr uploaded \<Rightarrow> [OnFilesChange (files @ [uploaded\<lparr>uf_preview := preview\<rparr>])]))"

definition handleFileSelect ::
  "(jsfile \<Rightarrow> jsstring) \<Rightarrow> (jsfile \<Rightarrow> jsstring + uploadedFile) \<Rightarrow> bool \<Rightarrow> uploadedFile list \<Rightarrow>
   jsfile list \<Rightarrow> effect list" where
  "handleFileSelect createObjectURL onUpload ref files selectedFiles =
     concat (map (select_file createObjectURL onUpload files) selectedFiles) @
     (if ref then [ResetInput] else [])"

text \<open>The files handed to \<open>onUpload\<close>, in order.\<close>

fun uploads :: "effect list \<Rightarrow> jsfile list" where
  "uploads [] = []"
| "uploads (OnUpload f # es) = f # uploads es"
| "uploads (e # es) = uploads es"

fun alerts :: "effect list \<Rightarrow> jsstring list" where
  "alerts [] = []"
| "alerts (Alert a # es) = a # alerts es"
| "alerts (e # es) = alerts es"

text \<open>The state of \<open>ChatInput\<close> and its submit handler.\<close>

record chatInput =
  message :: jsstring
  files :: "uploadedFile list"
  isUploading :: bool

definition to_attachment :: "uploadedFile \<Rightarrow> fileAttachment" where
  "to_attachment f =
     \<lparr>fa_id = uf_id f, fa_name = uf_name f, fa_type = uf_type f, fa_url = uf_url f,
      fa_mime_type = uf_mime_type f\<rparr>"

text \<open>
  \<open>handleSubmit\<close> returns the arguments of its call of \<open>onSendMessage\<close>, if it makes
  one, and the next state.
\<close>

definition handleSubmit ::
  "bool \<Rightarrow> bool \<Rightarrow> chatInput \<Rightarrow> (jsstring \<times> fileAttachment list) option \<times> chatInput" where
  "handleSubmit disabled isStreaming st =
     (let trimmedMessage = trim (message st) in
      if trimmedMessage = [] \<and> length (files st) = 0 then (None, st)
      else if disabled \<or> isStreaming then (None, st)
      else (Some (trimmedMessage, map to_attachment (files st)),
            st\<lparr>message := [], files := []\<rparr>))"

text \<open>A browser and a network to run the file selection with.\<close>

definition sample_url :: "jsfile \<Rightarrow> jsstring" where
  "sample_url f = js ''blob:'' @ file_name f"

definition sample_upload :: "jsfile \<Rightarrow> uploadedFile" where
  "sample_upload f =
     \<lparr>uf_id = file_name f, uf_name = file_name f,
      uf_type = (if take 6 (file_type f) = js ''image/'' then js ''image'' else js ''pdf''),
      uf_url = js ''/files/'' @ file_name f, uf_mime_type = file_type f,
      uf_file = None, uf_preview = None\<rparr>"

text \<open>A file passes both checks of the loop.\<close>

definition accepted :: "jsfile \<Rightarrow> bool" where
  "accepted f \<longleftrightarrow> file_type f \<in> set ACCEPTED_TYPES \<and> file_size f \<le> MAX_FILE_SIZE"

section \<open>The chat page (Chat, useWebSocket, the REST client)\<close>

datatype messageRole = User | Assistant

record conversation =
  conv_id :: jsstring
  conv_title :: jsstring
  conv_created_at :: jsstring
  conv_updated_at :: jsstring

text \<open>
  \<open>conversation_id\<close> of a message built by \<open>onStreamEnd\<close> is
  \<open>currentConversationId!\<close>, which is null when no conversation is selected.
\<close>

record chatMessage =
  msg_id :: jsstring
  msg_conversation_id :: "jsstring option"
  msg_role :: messageRole
  msg_content :: jsstring
  msg_attachments :: "fileAttachment list"
  msg_created_at :: jsstring

record chat =
  conversations :: "conversation list"
  currentConversationId :: "jsstring option"
  messages :: "chatMessage list"
  streamingContent :: jsstring
  isStreaming :: bool

text \<open>
  The events of the socket, by their \<open>type\<close>, with the fields of \<open>data\<close> that the
  handlers read. \<open>Other\<close> is any type the \<open>switch\<close> of \<open>handleMessage\<close> has no case
  for (\<open>pong\<close> among them).
\<close>

datatype wsMessage =
    Message_saved jsstring jsstring jsstring
  | Stream_start
  | Stream_chunk jsstring
  | Stream_end jsstring jsstring
  | Title_updated jsstring jsstring
  | Error jsstring
  | Other jsstring

text \<open>
  \<open>handleMessage\<close> of \<open>useWebSocket\<close> with the callbacks that \<open>Chat\<close> passes in.
  \<open>now\<close> is \<open>new Date().toISOString()\<close> at the time of the event.
\<close>

definition handleMessage :: "jsstring \<Rightarrow> wsMessage \<Rightarrow> chat \<Rightarrow> chat" where
  "handleMessage now msg st =
     (case msg of
        Message_saved i r c \<Rightarrow> st
      | Stream_start \<Rightarrow> st\<lparr>isStreaming := True, streamingContent := []\<rparr>
      | Stream_chunk content \<Rightarrow> st\<lparr>streamingContent := streamingContent st @ content\<rparr>
      | Stream_end i content \<Rightarrow>
          st\<lparr>isStreaming := False,
             messages := messages st @
               [\<lparr>msg_id = i, msg_conversation_id = currentConversationId st,
                 msg_role = Assistant, msg_content = content, msg_attachments = [],
                 msg_created_at = now\<rparr>],
             streamingContent := []\<rparr>
      | Title_updated cid title \<Rightarrow>
          st\<lparr>conversations :=
               map (\<lambda>c. if conv_id c = cid then c\<lparr>conv_title := title\<rparr> else c)
                 (conversations st)\<rparr>
      | Error m \<Rightarrow> st\<lparr>isStreaming := False, streamingContent := []\<rparr>
      | Other t \<Rightarrow> st)"

text \<open>
  \<open>handleRenameConversation\<close>, once \<open>updateConversation\<close> has resolved; when the
  request fails the state is left alone.
\<close>

definition handleRenameConversation :: "bool \<Rightarrow> jsstring \<Rightarrow> jsstring \<Rightarrow> chat \<Rightarrow> chat" where
  "handleRenameConversation ok i title st =
     (if ok then
        st\<lparr>conversations :=
             map (\<lambda>c. if conv_id c = i then c\<lparr>conv_title := title\<rparr> else c)
               (conversations st)\<rparr>
      else st)"

text \<open>
  The body of the request of \<open>createConversation(title?)\<close>:
  \<open>{ title: title || "New Conversation" }\<close>. An empty string is falsy.
\<close>

definition createConversation_body :: "jsstring option \<Rightarrow> json" where
  "createConversation_body title =
     JObj [(js ''title'',
            JStr (case title of
                    None \<Rightarrow> js ''New Conversation''
                  | Some t \<Rightarrow> if t = [] then js ''New Conversation'' else t))]"

text \<open>The object \<open>sendMessage\<close> hands to \<open>send\<close>.\<close>

definition attachment_json :: "fileAttachment \<Rightarrow> json" where
  "attachment_json a =
     JObj [(js ''id'', JStr (fa_id a)), (js ''name'', JStr (fa_name a)),
           (js ''type'', JStr (fa_type a)), (js ''url'', JStr (fa_url a)),
           (js ''mime_type'', JStr (fa_mime_type a))]"

definition sendMessage ::
  "(json \<Rightarrow> jsstring) \<Rightarrow> jsstring \<Rightarrow> jsstring \<Rightarrow> fileAttachment list \<Rightarrow> manager \<Rightarrow>
   bool \<times> manager" where
  "sendMessage stringify conversationId content attachments m =
     send stringify
       (JObj [(js ''type'', JStr (js ''chat'')), (js ''conversation_id'', JStr conversationId),
              (js ''content'', JStr content),
              (js ''attachments'', JArr (map attachment_json attachments))]) m"

section \<open>The database (the schema of the migrations)\<close>

text \<open>
  Three tables. A UUID is 128 bits, a \<open>TIMESTAMPTZ\<close> a count of microseconds; a
  text value is held as UTF-16, as the client has it. Every column is \<open>NOT NULL\<close>.
\<close>

type_synonym uuid = "128 word"
type_synonym timestamptz = int

record conversation_row =
  c_id :: uuid
  c_title :: jsstring
  c_created_at :: timestamptz
  c_updated_at :: timestamptz

record message_row =
  m_id :: uuid
  m_conversation_id :: uuid
  m_role :: jsstring
  m_content :: jsstring
  m_created_at :: timestamptz

record attachment_row =
  a_id :: uuid
  a_message_id :: uuid
  a_conversation_id :: uuid
  a_name :: jsstring
  a_type :: jsstring
  a_url :: jsstring
  a_mime_type :: jsstring
  a_created_at :: timestamptz

record database =
  db_conversations :: "conversation_row list"
  db_messages :: "message_row list"
  db_attachments :: "attachment_row list"

datatype sql_error =
    Unique_violation
  | String_too_long
  | Invalid_text

text \<open>
  The characters of a text value held as UTF-16: a surrogate pair is one character.
  PostgreSQL has no text value with the character U+0000 or with half a surrogate pair;
  for such a string there are no characters to count, and an insert of it is refused.
\<close>

definition high_surrogate :: "16 word \<Rightarrow> bool" where
  "high_surrogate u \<longleftrightarrow> 0xD800 \<le> u \<and> u \<le> 0xDBFF"

definition low_surrogate :: "16 word \<Rightarrow> bool" where
  "low_surrogate u \<longleftrightarrow> 0xDC00 \<le> u \<and> u \<le> 0xDFFF"

fun characters :: "jsstring \<Rightarrow> jsstring list option" where
  "characters [] = Some []"
| "characters [u] =
     (if u = 0 \<or> high_surrogate u \<or> low_surrogate u then None else Some [[u]])"
| "characters (u # v # r) =
     (if high_surrogate u then
        (if low_surrogate v then map_option (\<lambda>cs. [u, v] # cs) (characters r) else None)
      else if u = 0 \<or> low_surrogate u then None
      else map_option (\<lambda>cs. [u] # cs) (characters (v # r)))"

text \<open>
  Storing into a \<open>VARCHAR(n)\<close> column: a value of at most \<open>n\<close> characters is stored
  as it is; a longer one is cut to \<open>n\<close> characters when all the characters beyond are
  spaces, and refused otherwise.
\<close>

definition varchar :: "nat \<Rightarrow> jsstring \<Rightarrow> sql_error + jsstring" where
  "varchar n s =
     (case characters s of
        None \<Rightarrow> Inl Invalid_text
      | Some cs \<Rightarrow>
          if length cs \<le> n then Inr s
          else if list_all (\<lambda>c. c = [0x0020]) (drop n cs) then Inr (concat (take n cs))
          else Inl String_too_long)"

text \<open>
  \<open>INSERT INTO conversations ... RETURNING *\<close>. A column the statement leaves out
  takes its \<open>DEFAULT\<close>: \<open>uuid_generate_v4()\<close> and \<open>NOW()\<close> are the parameters
  \<open>gen\<close> and \<open>now\<close>, the title is \<open>'New Conversation'\<close>. The title goes into a
  \<open>VARCHAR(255)\<close>; the primary key must be new.
\<close>

definition insert_conversation ::
  "uuid \<Rightarrow> timestamptz \<Rightarrow> uuid option \<Rightarrow> jsstring option \<Rightarrow> timestamptz option \<Rightarrow>
   timestamptz option \<Rightarrow> database \<Rightarrow> sql_error + conversation_row \<times> database" where
  "insert_conversation gen now i title created updated db =
     (case varchar 255 (case title of None \<Rightarrow> js ''New Conversation'' | Some t \<Rightarrow> t) of
        Inl e \<Rightarrow> Inl e
      | Inr stored \<Rightarrow>
          let row = \<lparr>c_id = (case i of None \<Rightarrow> gen | Some v \<Rightarrow> v),
                     c_title = stored,
                     c_created_at = (case created of None \<Rightarrow> now | Some t \<Rightarrow> t),
                     c_updated_at = (case updated of None \<Rightarrow> now | Some t \<Rightarrow> t)\<rparr>
          in if c_id row \<in> set (map c_id (db_conversations db)) then Inl Unique_violation
             else Inr (row, db\<lparr>db_conversations := db_conversations db @ [row]\<rparr>))"

text \<open>
  \<open>DELETE FROM messages WHERE id = mid\<close>: \<open>attachments.message_id\<close> references
  \<open>messages(id) ON DELETE CASCADE\<close>.
\<close>

definition delete_message :: "uuid \<Rightarrow> database \<Rightarrow> database" where
  "delete_message mid db =
     db\<lparr>db_messages := filter (\<lambda>m. m_id m \<noteq> mid) (db_messages db),
        db_attachments := filter (\<lambda>a. a_message_id a \<noteq> mid) (db_attachments db)\<rparr>"

text \<open>
  \<open>DELETE FROM conversations WHERE id = cid\<close>: \<open>messages.conversation_id\<close> and
  \<open>attachments.conversation_id\<close> reference \<open>conversations(id) ON DELETE CASCADE\<close>,
  and each message deleted by the cascade takes its attachments with it.
\<close>

definition delete_conversation :: "uuid \<Rightarrow> database \<Rightarrow> database" where
  "delete_conversation cid db =
     (let gone = map m_id (filter (\<lambda>m. m_conversation_id m = cid) (db_messages db)) in
      db\<lparr>db_conversations := filter (\<lambda>c. c_id c \<noteq> cid) (db_conversations db),
         db_messages := filter (\<lambda>m. m_conversation_id m \<noteq> cid) (db_messages db),
         db_attachments :=
           filter (\<lambda>a. a_conversation_id a \<noteq> cid \<and> a_message_id a \<notin> set gone)
             (db_attachments db)\<rparr>)"

text \<open>The foreign keys hold: every reference names a row of the referenced table.\<close>

definition foreign_keys_hold :: "database \<Rightarrow> bool" where
  "foreign_keys_hold db \<longleftrightarrow>
     list_all (\<lambda>m. m_conversation_id m \<in> set (map c_id (db_conversations db)))
       (db_messages db) \<and>
     list_all (\<lambda>a. a_message_id a \<in> set (map m_id (db_messages db)) \<and>
                   a_conversation_id a \<in> set (map c_id (db_conversations db)))
       (db_attachments db)"

text \<open>A database and a chat page to run the operations on.\<close>

definition sample_db :: database where
  "sample_db =
     \<lparr>db_conversations =
        [\<lparr>c_id = 1, c_title = js ''New Conversation'', c_created_at = 100, c_updated_at = 100\<rparr>],
      db_messages = [], db_attachments = []\<rparr>"

definition sample_chat :: chat where
  "sample_chat =
     \<lparr>conversations =
        [\<lparr>conv_id = js ''1'', conv_title = js ''New Conversation'',
          conv_created_at = js ''t0'', conv_updated_at = js ''t0''\<rparr>,
         \<lparr>conv_id = js ''2'', conv_title = js ''Other'',
          conv_created_at = js ''t1'', conv_updated_at = js ''t1''\<rparr>],
      currentConversationId = Some (js ''1''), messages = [], streamingContent = [],
      isStreaming = False\<rparr>"

text \<open>A database with a conversation to delete. Two attachments name a message of one
  conversation and, in \<open>conversation_id\<close>, the other conversation: the schema allows it.\<close>

definition sample_rows :: database where
  "sample_rows =
     \<lparr>db_conversations =
        [\<lparr>c_id = 1, c_title = js ''New Conversation'', c_created_at = 100, c_updated_at = 100\<rparr>,
         \<lparr>c_id = 2, c_title = js ''Other'', c_created_at = 101, c_updated_at = 101\<rparr>],
      db_messages =
        [\<lparr>m_id = 10, m_conversation_id = 1, m_role = js ''user'', m_content = js ''a'',
          m_created_at = 110\<rparr>,
         \<lparr>m_id = 20, m_conversation_id = 2, m_role = js ''user'', m_content = js ''b'',
          m_created_at = 120\<rparr>],
      db_attachments =
        [\<lparr>a_id = 100, a_message_id = 10, a_conversation_id = 1, a_name = js ''x.png'',
          a_type = js ''image'', a_url = js ''u1'', a_mime_type = js ''image/png'',
          a_created_at = 111\<rparr>,
         \<lparr>a_id = 200, a_message_id = 20, a_conversation_id = 2, a_name = js ''y.pdf'',
          a_type = js ''pdf'', a_url = js ''u2'', a_mime_type = js ''application/pdf'',
          a_created_at = 121\<rparr>,
         \<lparr>a_id = 300, a_message_id = 10, a_conversation_id = 2, a_name = js ''z.pdf'',
          a_type = js ''pdf'', a_url = js ''u3'', a_mime_type = js ''application/pdf'',
          a_created_at = 122\<rparr>,
         \<lparr>a_id = 400, a_message_id = 20, a_conversation_id = 1, a_name = js ''w.pdf'',
          a_type = js ''pdf'', a_url = js ''u4'', a_mime_type = js ''application/pdf'',
          a_created_at = 123\<rparr>]\<rparr>"

section \<open>Properties of the connection manager\<close>


lemma connect_count: "connectionCount (connect m) = connectionCount m + 1"
  by (simp add: connect_def Let_def clearReconnect_def split: option.splits)

lemma disconnect_count: "connectionCount (disconnect m) = max 0 (connectionCount m - 1)"
  by (simp add: disconnect_def Let_def clearReconnect_def cleanup_def socket_close_def split: option.splits)



lemma ws_readyState_count [simp]:
  "ws_readyState (m\<lparr>connectionCount := c\<rparr>) = ws_readyState m"
  by (simp add: ws_readyState_def split: option.splits)



lemma clearTimer_all: "list_all P ts \<Longrightarrow> list_all P (clearTimer t ts)"
  by (simp add: clearTimer_def list_all_iff)

lemma handles_below_cleanup: "handles_below m \<Longrightarrow> handles_below (cleanup m)"
  by (auto simp: handles_below_def cleanup_def clearTimer_all split: option.splits)

lemma handles_below_clearReconnect: "handles_below m \<Longrightarrow> handles_below (clearReconnect m)"
  by (auto simp: handles_below_def clearReconnect_def clearTimer_all split: option.splits)

lemma handles_below_count:
  "handles_below (m\<lparr>connectionCount := c\<rparr>) = handles_below m"
  by (simp add: handles_below_def split: option.splits)

lemma list_all_less_Suc: "list_all (\<lambda>p. fst p < n) ts \<Longrightarrow> list_all (\<lambda>p. fst p < Suc n) ts"
  by (induction ts) auto

lemma handles_below_connect: "handles_below m \<Longrightarrow> handles_below (connect m)"
proof -
  assume h: "handles_below m"
  let ?m1 = "m\<lparr>connectionCount := connectionCount m + 1\<rparr>"
  have h1: "handles_below ?m1" using h by (simp add: handles_below_count)
  have h2: "handles_below (clearReconnect ?m1)" using h1 by (rule handles_below_clearReconnect)
  show ?thesis
  proof (cases "ws_readyState ?m1 = Some OPEN \<or> ws_readyState ?m1 = Some CONNECTING")
    case True
    then show ?thesis using h1 by (simp add: connect_def Let_def)
  next
    case False
    then have "connect m = (clearReconnect ?m1)\<lparr>ws := Some (fresh (clearReconnect ?m1)),
        sockets := (sockets (clearReconnect ?m1))(fresh (clearReconnect ?m1) \<mapsto> CONNECTING),
        fresh := Suc (fresh (clearReconnect ?m1))\<rparr>"
      by (simp add: connect_def Let_def)
    then show ?thesis using h2
      by (auto simp: handles_below_def list_all_less_Suc split: option.splits)
  qed
qed

lemma handles_below_onopen: "handles_below m \<Longrightarrow> handles_below (onopen m)"
  by (auto simp: handles_below_def onopen_def notifyListeners_def Let_def list_all_less_Suc
      split: option.splits)

lemma handles_below_onclose: "handles_below m \<Longrightarrow> handles_below (onclose m)"
proof -
  assume "handles_below m"
  then have "handles_below (cleanup m)" by (rule handles_below_cleanup)
  then show ?thesis
    by (auto simp: handles_below_def onclose_def notifyListeners_def Let_def list_all_less_Suc
        split: option.splits)
qed

lemma handles_below_disconnect: "handles_below m \<Longrightarrow> handles_below (disconnect m)"
proof -
  assume h: "handles_below m"
  let ?m2 = "clearReconnect (cleanup (m\<lparr>connectionCount := 0\<rparr>))"
  have h2: "handles_below ?m2"
    using h by (simp add: handles_below_count handles_below_cleanup handles_below_clearReconnect)
  have h3: "handles_below (case ws ?m2 of None \<Rightarrow> ?m2 | Some s \<Rightarrow> (socket_close s ?m2)\<lparr>ws := None\<rparr>)"
    using h2 by (auto simp: handles_below_def socket_close_def split: option.splits)
  show ?thesis
  proof (cases "connectionCount m - 1 \<le> 0")
    case True
    then show ?thesis using h3 by (simp add: disconnect_def Let_def)
  next
    case False
    then show ?thesis using h by (simp add: disconnect_def Let_def handles_below_count)
  qed
qed

lemma handles_below_sockets:
  "handles_below m \<Longrightarrow> sockets m s \<noteq> None \<Longrightarrow> handles_below (m\<lparr>sockets := (sockets m)(s \<mapsto> r)\<rparr>)"
  by (auto simp: handles_below_def split: option.splits)

lemma handles_below_timers:
  "handles_below m \<Longrightarrow> handles_below (m\<lparr>timers := clearTimer t (timers m)\<rparr>)"
  by (auto simp: handles_below_def clearTimer_all split: option.splits)

lemma handles_below_outbox:
  "handles_below (m\<lparr>outbox := x\<rparr>) = handles_below m"
  by (simp add: handles_below_def split: option.splits)

lemma handles_below_step: "handles_below m \<Longrightarrow> handles_below (step stringify e m)"
proof (cases e)
  case Connect
  assume "handles_below m" then show ?thesis using Connect by (simp add: step_def handles_below_connect)
next
  case Disconnect
  assume "handles_below m" then show ?thesis using Disconnect by (simp add: step_def handles_below_disconnect)
next
  case (Send d)
  assume "handles_below m" then show ?thesis using Send
    by (simp add: step_def send_def handles_below_outbox split: option.splits)
next
  case (SockOpen s)
  assume "handles_below m" then show ?thesis using SockOpen
    by (simp add: step_def handles_below_onopen handles_below_sockets)
next
  case (SockClosing s)
  assume "handles_below m" then show ?thesis using SockClosing
    by (simp add: step_def handles_below_sockets)
next
  case (SockClose s)
  assume "handles_below m" then show ?thesis using SockClose
    by (auto simp add: step_def handles_below_onclose handles_below_sockets)
next
  case (Fire t)
  assume "handles_below m" then show ?thesis using Fire
    by (simp add: step_def fire_def ping_tick_def handles_below_connect handles_below_timers
        handles_below_outbox split: option.splits timer.splits)
qed

lemma handles_below_run: "handles_below m \<Longrightarrow> handles_below (run stringify es m)"
  unfolding run_def by (induction es arbitrary: m) (simp_all add: handles_below_step)

lemma handles_below_init: "handles_below createWebSocketManager"
  by (simp add: handles_below_def createWebSocketManager_def)


lemma count_step: "0 \<le> connectionCount m \<Longrightarrow> 0 \<le> connectionCount (step stringify e m)"
  by (cases e)
    (auto simp: step_def connect_count disconnect_count send_def onopen_def onclose_def
      notifyListeners_def cleanup_def fire_def ping_tick_def Let_def
      split: option.splits timer.splits)

lemma count_run: "0 \<le> connectionCount m \<Longrightarrow> 0 \<le> connectionCount (run stringify es m)"
  unfolding run_def by (induction es arbitrary: m) (simp_all add: count_step)


lemma timers_connect: "list_all P (timers m) \<Longrightarrow> list_all P (timers (connect m))"
  by (auto simp: connect_def Let_def clearReconnect_def clearTimer_all split: option.splits)

lemma timers_disconnect: "list_all P (timers m) \<Longrightarrow> list_all P (timers (disconnect m))"
  by (auto simp: disconnect_def Let_def clearReconnect_def cleanup_def socket_close_def
      clearTimer_all split: option.splits)

lemma timers_step:
  "list_all timer_ok (timers m) \<Longrightarrow> list_all timer_ok (timers (step stringify e m))"
  by (cases e)
    (auto simp: step_def timers_connect timers_disconnect send_def onopen_def onclose_def
      notifyListeners_def cleanup_def fire_def ping_tick_def Let_def clearTimer_all timer_ok_def
      split: option.splits timer.splits)

lemma timers_run:
  "list_all timer_ok (timers m) \<Longrightarrow> list_all timer_ok (timers (run stringify es m))"
  unfolding run_def by (induction es arbitrary: m) (simp_all add: timers_step)

lemma outbox_connect: "outbox (connect m) = outbox m"
  by (simp add: connect_def Let_def clearReconnect_def split: option.splits)

lemma outbox_disconnect: "outbox (disconnect m) = outbox m"
  by (simp add: disconnect_def Let_def clearReconnect_def cleanup_def socket_close_def
      split: option.splits)

lemma silent_step:
  "\<forall>s. sockets m s \<noteq> Some OPEN \<Longrightarrow> outbox (step stringify e m) = outbox m"
  by (cases e)
    (auto simp: step_def outbox_connect outbox_disconnect send_def onopen_def onclose_def
      notifyListeners_def cleanup_def fire_def ping_tick_def Let_def
      split: option.splits timer.splits)

lemma onclose_timers:
  "timers (onclose m) =
     (if 0 < connectionCount m then timers (cleanup m) @ [(fresh m, Timeout 3000)]
      else timers (cleanup m))"
  by (simp add: onclose_def notifyListeners_def cleanup_def Let_def split: option.splits)

lemma onclose_reconnectTimeout:
  "reconnectTimeout (onclose m) =
     (if 0 < connectionCount m then Some (fresh m) else reconnectTimeout m)"
  by (simp add: onclose_def notifyListeners_def cleanup_def Let_def split: option.splits)

lemma onclose_pingInterval: "pingInterval (onclose m) = None"
  by (simp add: onclose_def notifyListeners_def cleanup_def Let_def split: option.splits)

lemma map_of_below:
  "list_all (\<lambda>p. fst p < (n::nat)) ts \<Longrightarrow> n \<le> t \<Longrightarrow> map_of ts t = None"
  by (induction ts) auto

lemma map_of_clearTimer: "map_of (clearTimer t ts) t = None"
  by (induction ts) (auto simp: clearTimer_def)

lemma cleanup_gone:
  "pingInterval m = Some t \<Longrightarrow> map_of (timers (cleanup m)) t = None"
  by (simp add: cleanup_def map_of_clearTimer)

lemma onclose_gone:
  assumes "handles_below m" "pingInterval m = Some t"
  shows "map_of (timers (onclose m)) t = None"
proof -
  have "t < fresh m" using assms by (simp add: handles_below_def)
  then show ?thesis using assms(2)
    by (simp add: onclose_timers cleanup_gone)
qed

lemma fire_reconnect:
  assumes "handles_below m" "0 < connectionCount m"
  shows "fire stringify (fresh m) (onclose m) =
         connect ((onclose m)\<lparr>timers := timers (cleanup m)\<rparr>)"
proof -
  have b: "list_all (\<lambda>p. fst p < fresh m) (timers (cleanup m))"
    using handles_below_cleanup [OF assms(1)]
    by (simp add: handles_below_def cleanup_def split: option.splits)
  then have n: "map_of (timers (cleanup m)) (fresh m) = None"
    by (rule map_of_below) simp
  have "filter (\<lambda>p. fst p \<noteq> fresh m) (timers (cleanup m)) = timers (cleanup m)"
    using b by (auto simp add: list_all_iff filter_id_conv)
  then have c: "clearTimer (fresh m) (timers (onclose m)) = timers (cleanup m)"
    using assms(2) by (simp add: onclose_timers clearTimer_def)
  have l: "map_of (timers (onclose m)) (fresh m) = Some (Timeout 3000)"
    using assms(2) n by (simp add: onclose_timers map_add_def)
  show ?thesis by (simp add: fire_def l c)
qed


lemma disconnect_teardown:
  assumes "connectionCount m \<le> 1"
  shows "ws (disconnect m) = None \<and> pingInterval (disconnect m) = None \<and>
         reconnectTimeout (disconnect m) = None \<and> connectionCount (disconnect m) = 0 \<and>
         fresh (disconnect m) = fresh m"
  using assms
  by (simp add: disconnect_def Let_def clearReconnect_def cleanup_def socket_close_def
      split: option.splits)



lemma connect_opens:
  assumes "ws m = None"
  shows "ws (connect m) = Some (fresh m) \<and> sockets (connect m) (fresh m) = Some CONNECTING \<and>
         fresh (connect m) = Suc (fresh m)"
  using assms
  by (simp add: connect_def Let_def ws_readyState_def clearReconnect_def split: option.splits)




lemma run_Nil: "run f [] m = m" by (simp add: run_def)
lemma run_Cons: "run f (e # es) m = run f es (step f e m)" by (simp add: run_def)

lemmas eval_defs = run_Nil run_Cons step_def connect_def disconnect_def onopen_def onclose_def
  cleanup_def clearReconnect_def clearTimer_def notifyListeners_def socket_close_def
  ws_readyState_def createWebSocketManager_def Let_def fire_def ping_tick_def send_def

lemma outbox_step:
  "outbox (step stringify e m) = outbox m \<or>
   (\<exists>s. outbox (step stringify e m) = outbox m @ [(s, stringify ping)]) \<or>
   (\<exists>d s. e = Send d \<and> outbox (step stringify e m) = outbox m @ [(s, stringify d)])"
  by (cases e)
    (auto simp: step_def outbox_connect outbox_disconnect send_def onopen_def onclose_def
      notifyListeners_def cleanup_def fire_def ping_tick_def Let_def
      split: option.splits timer.splits)

lemma step_SockOpen:
  "sockets m s = Some CONNECTING \<Longrightarrow>
   step stringify (SockOpen s) m = onopen (m\<lparr>sockets := (sockets m)(s \<mapsto> OPEN)\<rparr>)"
  by (simp add: step_def)

lemma step_SockClose:
  "sockets m s = Some CONNECTING \<or> sockets m s = Some OPEN \<or> sockets m s = Some CLOSING \<Longrightarrow>
   step stringify (SockClose s) m = onclose (m\<lparr>sockets := (sockets m)(s \<mapsto> CLOSED)\<rparr>)"
  by (simp add: step_def)

subsection \<open>Sending\<close>

text \<open>
  C2. \<open>send\<close> transmits nothing, returns false and hands back the state exactly as
  it was (nothing is queued) when there is no socket or the socket is not OPEN; on an
  OPEN socket it passes the serialised payload to that socket, changes nothing else and
  returns true. Nothing is retried later: whatever happens next transmits nothing, or
  the keep-alive ping, or the payload of the very call of \<open>send\<close> that is happening.
\<close>

theorem C2_send:
  "(ws m = None \<longrightarrow> send stringify d m = (False, m)) \<and>
   (\<forall>s. ws m = Some s \<and> sockets m s \<noteq> Some OPEN \<longrightarrow> send stringify d m = (False, m)) \<and>
   (\<forall>s. ws m = Some s \<and> sockets m s = Some OPEN \<longrightarrow>
        send stringify d m = (True, m\<lparr>outbox := outbox m @ [(s, stringify d)]\<rparr>)) \<and>
   (outbox (step stringify e m) = outbox m \<or>
    (\<exists>s. outbox (step stringify e m) = outbox m @ [(s, stringify ping)]) \<or>
    (\<exists>d' s. e = Send d' \<and> outbox (step stringify e m) = outbox m @ [(s, stringify d')]))"
  using outbox_step [of stringify e m] by (simp add: send_def)

theorem C2_send_witness:
  "send sample_stringify ping createWebSocketManager = (False, createWebSocketManager) \<and>
   send sample_stringify ping (connect createWebSocketManager) =
     (False, connect createWebSocketManager) \<and>
   fst (send sample_stringify ping
          (run sample_stringify [Connect, SockOpen 0] createWebSocketManager)) = True \<and>
   outbox (snd (send sample_stringify ping
          (run sample_stringify [Connect, SockOpen 0] createWebSocketManager))) =
     [(0, sample_stringify ping)]"
proof -
  let ?m0 = createWebSocketManager
  let ?m1 = "connect createWebSocketManager"
  let ?m2 = "run sample_stringify [Connect, SockOpen 0] createWebSocketManager"
  have a: "ws ?m0 = None" by (simp add: createWebSocketManager_def)
  have b: "ws ?m1 = Some 0 \<and> sockets ?m1 0 \<noteq> Some OPEN" by (simp add: eval_defs)
  have c: "ws ?m2 = Some 0 \<and> sockets ?m2 0 = Some OPEN" by (simp add: eval_defs)
  have o: "outbox ?m2 = []" by (simp add: eval_defs)
  from C2_send [of ?m0 sample_stringify ping] a
  have 1: "send sample_stringify ping ?m0 = (False, ?m0)" by blast
  from C2_send [of ?m1 sample_stringify ping] b
  have 2: "send sample_stringify ping ?m1 = (False, ?m1)" by blast
  from C2_send [of ?m2 sample_stringify ping] c
  have 3: "send sample_stringify ping ?m2 =
      (True, ?m2\<lparr>outbox := outbox ?m2 @ [(0, sample_stringify ping)]\<rparr>)" by blast
  show ?thesis using 1 2 3 o by simp
qed

subsection \<open>Reconnecting\<close>

text \<open>
  C3. When a socket closes and \<open>connectionCount\<close> is positive, the close handler
  adds exactly one timer to what \<open>cleanup\<close> leaves, a timeout of 3000 ms whose
  callback is \<open>connect\<close>, and records it in \<open>reconnectTimeout\<close>; when the count
  is not positive it adds none. The delay never grows: in every state the manager can
  reach, each timeout is one of 3000 ms (and each interval one of 30000 ms). The close
  handler is what runs when a socket that was not yet closed closes, and every state
  the manager can reach keeps its handles below \<open>fresh\<close>.
\<close>

theorem C3_reconnect:
  "(0 < connectionCount m \<longrightarrow>
      timers (onclose m) = timers (cleanup m) @ [(fresh m, Timeout 3000)] \<and>
      reconnectTimeout (onclose m) = Some (fresh m)) \<and>
   (0 < connectionCount m \<and> handles_below m \<longrightarrow>
      fire stringify (fresh m) (onclose m) =
        connect ((onclose m)\<lparr>timers := timers (cleanup m)\<rparr>)) \<and>
   (\<not> 0 < connectionCount m \<longrightarrow>
      timers (onclose m) = timers (cleanup m) \<and>
      reconnectTimeout (onclose m) = reconnectTimeout m) \<and>
   list_all timer_ok (timers (run stringify es createWebSocketManager)) \<and>
   (sockets m s = Some CONNECTING \<or> sockets m s = Some OPEN \<or> sockets m s = Some CLOSING \<longrightarrow>
      step stringify (SockClose s) m = onclose (m\<lparr>sockets := (sockets m)(s \<mapsto> CLOSED)\<rparr>)) \<and>
   handles_below (run stringify es createWebSocketManager)"
proof -
  have "list_all timer_ok (timers createWebSocketManager)"
    by (simp add: createWebSocketManager_def)
  then have "list_all timer_ok (timers (run stringify es createWebSocketManager))"
    by (rule timers_run)
  then show ?thesis
    by (simp add: onclose_timers onclose_reconnectTimeout fire_reconnect step_SockClose
        handles_below_run handles_below_init)
qed

theorem C3_reconnect_witness:
  "timers (onclose (run sample_stringify [Connect, SockOpen 0] createWebSocketManager)) =
     [(2, Timeout 3000)] \<and>
   ws (fire sample_stringify 2
        (onclose (run sample_stringify [Connect, SockOpen 0, SockClosing 0]
           createWebSocketManager))) = Some 3 \<and>
   timers (onclose (run sample_stringify [Connect, SockOpen 0, Disconnect]
      createWebSocketManager)) = []"
proof -
  let ?m = "run sample_stringify [Connect, SockOpen 0] createWebSocketManager"
  let ?k = "run sample_stringify [Connect, SockOpen 0, SockClosing 0] createWebSocketManager"
  let ?z = "run sample_stringify [Connect, SockOpen 0, Disconnect] createWebSocketManager"
  have m: "0 < connectionCount ?m" "fresh ?m = 2" "timers (cleanup ?m) = []"
    by (simp_all add: eval_defs)
  have k: "0 < connectionCount ?k \<and> handles_below ?k" "fresh ?k = 2"
    by (simp_all add: eval_defs handles_below_def)
  have k': "ws (connect ((onclose ?k)\<lparr>timers := timers (cleanup ?k)\<rparr>)) = Some 3"
    by (simp add: eval_defs)
  have z: "\<not> 0 < connectionCount ?z" "timers (cleanup ?z) = []"
    by (simp_all add: eval_defs)
  from C3_reconnect [of ?m sample_stringify "[]"] m
  have 1: "timers (onclose ?m) = [(2, Timeout 3000)]" by simp
  from C3_reconnect [of ?k sample_stringify "[]"] k
  have "fire sample_stringify 2 (onclose ?k) =
        connect ((onclose ?k)\<lparr>timers := timers (cleanup ?k)\<rparr>)" by simp
  then have 2: "ws (fire sample_stringify 2 (onclose ?k)) = Some 3" using k' by simp
  from C3_reconnect [of ?z sample_stringify "[]"] z
  have 3: "timers (onclose ?z) = []" by simp
  show ?thesis using 1 2 3 by simp
qed


text \<open>
  The callback of the reconnect timeout is \<open>connect\<close> itself, so every reconnect adds
  one to \<open>connectionCount\<close>: after one consumer has connected and the socket has
  dropped and been reopened, the count is 2, and the \<open>disconnect\<close> of that consumer
  leaves the count at 1 and the socket open.
\<close>

lemma reconnect_raises_count:
  "connectionCount (run sample_stringify [Connect, SockOpen 0, SockClose 0, Fire 2]
     createWebSocketManager) = 2 \<and>
   ws_readyState (run sample_stringify
     [Connect, SockOpen 0, SockClose 0, Fire 2, SockOpen 3, Disconnect]
     createWebSocketManager) = Some OPEN"
  by (simp add: eval_defs)

subsection \<open>Reference counting\<close>



subsection \<open>Keep-alive\<close>

lemma fire_interval:
  "map_of (timers m) t = Some (Interval p) \<Longrightarrow> fire stringify t m = ping_tick stringify m"
  by (simp add: fire_def)

lemma fire_keep_alive:
  assumes "handles_below m"
  shows "fire stringify (fresh m) (onopen m) = ping_tick stringify (onopen m)"
proof -
  have "list_all (\<lambda>p. fst p < fresh m) (timers m)"
    using assms by (simp add: handles_below_def)
  then have "map_of (timers m) (fresh m) = None"
    by (rule map_of_below) simp
  then have "map_of (timers (onopen m)) (fresh m) = Some (Interval 30000)"
    by (simp add: onopen_def notifyListeners_def Let_def map_add_def)
  then show ?thesis by (rule fire_interval)
qed

text \<open>
  What the handlers do for the keep-alive. When a socket opens, the open handler starts
  an interval of 30000 ms and records it in \<open>pingInterval\<close>; when that interval
  fires (as when any live interval fires) its callback runs: it sends the ping on the
  current socket when that socket is OPEN and does nothing otherwise. When a socket
  closes, the close handler cancels the interval recorded in \<open>pingInterval\<close> and
  clears the variable. While no socket is OPEN, no event whatsoever transmits anything.
\<close>

lemma keep_alive_handlers:
  "pingInterval (onopen m) = Some (fresh m) \<and>
   timers (onopen m) = timers m @ [(fresh m, Interval 30000)] \<and>
   (\<forall>s. ws m = Some s \<and> sockets m s = Some OPEN \<longrightarrow>
      ping_tick stringify m = m\<lparr>outbox := outbox m @ [(s, stringify ping)]\<rparr>) \<and>
   (ws_readyState m \<noteq> Some OPEN \<longrightarrow> ping_tick stringify m = m) \<and>
   pingInterval (onclose m) = None \<and>
   (\<forall>t. handles_below m \<and> pingInterval m = Some t \<longrightarrow>
      map_of (timers (onclose m)) t = None) \<and>
   ((\<forall>s. sockets m s \<noteq> Some OPEN) \<longrightarrow> outbox (step stringify e m) = outbox m) \<and>
   (sockets m s = Some CONNECTING \<longrightarrow>
      step stringify (SockOpen s) m = onopen (m\<lparr>sockets := (sockets m)(s \<mapsto> OPEN)\<rparr>)) \<and>
   (sockets m s = Some CONNECTING \<or> sockets m s = Some OPEN \<or> sockets m s = Some CLOSING \<longrightarrow>
      step stringify (SockClose s) m = onclose (m\<lparr>sockets := (sockets m)(s \<mapsto> CLOSED)\<rparr>)) \<and>
   handles_below (run stringify es createWebSocketManager) \<and>
   (\<forall>t p. map_of (timers m) t = Some (Interval p) \<longrightarrow>
      fire stringify t m = ping_tick stringify m) \<and>
   (handles_below m \<longrightarrow>
      fire stringify (fresh m) (onopen m) = ping_tick stringify (onopen m))"
proof -
  have a: "pingInterval (onopen m) = Some (fresh m) \<and>
      timers (onopen m) = timers m @ [(fresh m, Interval 30000)]"
    by (simp add: onopen_def notifyListeners_def Let_def)
  have b: "\<forall>s. ws m = Some s \<and> sockets m s = Some OPEN \<longrightarrow>
      ping_tick stringify m = m\<lparr>outbox := outbox m @ [(s, stringify ping)]\<rparr>"
    by (simp add: ping_tick_def)
  have c: "ws_readyState m \<noteq> Some OPEN \<longrightarrow> ping_tick stringify m = m"
    by (simp add: ping_tick_def ws_readyState_def split: option.splits)
  show ?thesis
    using a b c
    by (simp add: onclose_pingInterval onclose_gone silent_step step_SockOpen step_SockClose
        handles_below_run handles_below_init fire_interval fire_keep_alive)
qed

text \<open>
  C7. On every socket close the keep-alive timer is to be cancelled. The code misses a
  case: the open handler overwrites \<open>pingInterval\<close> without cancelling the interval
  recorded there, and \<open>cleanup\<close> cancels only the recorded one. Take two consumers:
  the first connects and socket 0 opens, which starts interval 1; the peer starts the
  closing handshake of socket 0; the second consumer connects, which creates socket 2
  because socket 0 is no longer open or connecting; socket 2 opens, which starts
  interval 3 and forgets interval 1; socket 0 closes, then socket 2 closes. Both
  sockets are now closed and \<open>pingInterval\<close> is empty, yet interval 1 is still live.
  It is still live after both consumers have disconnected. And when the reconnect
  timeout fires and the new socket 6 opens with its own interval 7, both intervals
  ping socket 6.
\<close>

theorem C7_keep_alive_leak:
  "pingInterval (run sample_stringify [Connect, SockOpen 0] createWebSocketManager) = Some 1 \<and>
   map_of (timers (run sample_stringify [Connect, SockOpen 0] createWebSocketManager)) 1 =
     Some (Interval 30000) \<and>
   sockets (run sample_stringify
     [Connect, SockOpen 0, SockClosing 0, Connect, SockOpen 2, SockClose 0, SockClose 2]
     createWebSocketManager) 0 = Some CLOSED \<and>
   sockets (run sample_stringify
     [Connect, SockOpen 0, SockClosing 0, Connect, SockOpen 2, SockClose 0, SockClose 2]
     createWebSocketManager) 2 = Some CLOSED \<and>
   pingInterval (run sample_stringify
     [Connect, SockOpen 0, SockClosing 0, Connect, SockOpen 2, SockClose 0, SockClose 2]
     createWebSocketManager) = None \<and>
   map_of (timers (run sample_stringify
     [Connect, SockOpen 0, SockClosing 0, Connect, SockOpen 2, SockClose 0, SockClose 2]
     createWebSocketManager)) 1 = Some (Interval 30000) \<and>
   map_of (timers (run sample_stringify
     [Connect, SockOpen 0, SockClosing 0, Connect, SockOpen 2, SockClose 0, SockClose 2,
      Disconnect, Disconnect]
     createWebSocketManager)) 1 = Some (Interval 30000) \<and>
   outbox (run sample_stringify
     [Connect, SockOpen 0, SockClosing 0, Connect, SockOpen 2, SockClose 0, SockClose 2,
      Fire 5, SockOpen 6, Fire 1, Fire 7]
     createWebSocketManager) = [(6, sample_stringify ping), (6, sample_stringify ping)]"
  by (simp add: eval_defs)

subsection \<open>The count is never negative\<close>

text \<open>
  C9. \<open>connectionCount\<close> is never negative: it is not negative in any state reached
  from the initial one by calls and browser events, no step makes a non-negative count
  negative, and \<open>disconnect\<close> stops at zero. A \<open>disconnect\<close> that brings the count to
  zero leaves no socket and no timer recorded, and the next \<open>connect\<close> creates a
  socket under a handle that named no socket before, in state CONNECTING, with count 1
  (handles lie below \<open>fresh\<close> in every state the manager can reach).
\<close>

theorem C9_count_never_negative:
  "0 \<le> connectionCount (run stringify es createWebSocketManager) \<and>
   (0 \<le> connectionCount m \<longrightarrow> 0 \<le> connectionCount (step stringify e m)) \<and>
   connectionCount (disconnect m) = max 0 (connectionCount m - 1) \<and>
   (connectionCount m \<le> 1 \<and> handles_below m \<longrightarrow>
      connectionCount (disconnect m) = 0 \<and> ws (disconnect m) = None \<and>
      pingInterval (disconnect m) = None \<and> reconnectTimeout (disconnect m) = None \<and>
      sockets (disconnect m) (fresh (disconnect m)) = None \<and>
      ws (connect (disconnect m)) = Some (fresh (disconnect m)) \<and>
      sockets (connect (disconnect m)) (fresh (disconnect m)) = Some CONNECTING \<and>
      connectionCount (connect (disconnect m)) = 1) \<and>
   handles_below (run stringify es createWebSocketManager)"
proof -
  have "0 \<le> connectionCount createWebSocketManager"
    by (simp add: createWebSocketManager_def)
  then have a: "0 \<le> connectionCount (run stringify es createWebSocketManager)"
    by (rule count_run)
  have b: "connectionCount m \<le> 1 \<and> handles_below m \<longrightarrow>
      connectionCount (disconnect m) = 0 \<and> ws (disconnect m) = None \<and>
      pingInterval (disconnect m) = None \<and> reconnectTimeout (disconnect m) = None \<and>
      sockets (disconnect m) (fresh (disconnect m)) = None \<and>
      ws (connect (disconnect m)) = Some (fresh (disconnect m)) \<and>
      sockets (connect (disconnect m)) (fresh (disconnect m)) = Some CONNECTING \<and>
      connectionCount (connect (disconnect m)) = 1"
  proof
    assume h: "connectionCount m \<le> 1 \<and> handles_below m"
    then have t: "ws (disconnect m) = None \<and> pingInterval (disconnect m) = None \<and>
         reconnectTimeout (disconnect m) = None \<and> connectionCount (disconnect m) = 0 \<and>
         fresh (disconnect m) = fresh m"
      by (simp add: disconnect_teardown)
    have "handles_below (disconnect m)" using h by (simp add: handles_below_disconnect)
    then have f: "sockets (disconnect m) (fresh (disconnect m)) = None"
      by (simp add: handles_below_def)
    show "connectionCount (disconnect m) = 0 \<and> ws (disconnect m) = None \<and>
      pingInterval (disconnect m) = None \<and> reconnectTimeout (disconnect m) = None \<and>
      sockets (disconnect m) (fresh (disconnect m)) = None \<and>
      ws (connect (disconnect m)) = Some (fresh (disconnect m)) \<and>
      sockets (connect (disconnect m)) (fresh (disconnect m)) = Some CONNECTING \<and>
      connectionCount (connect (disconnect m)) = 1"
      using t f connect_opens [of "disconnect m"] by (simp add: connect_count)
  qed
  show ?thesis
    using a b by (simp add: count_step disconnect_count handles_below_run handles_below_init)
qed

theorem C9_count_never_negative_witness:
  "connectionCount (step sample_stringify Disconnect createWebSocketManager) = 0 \<and>
   ws (disconnect (run sample_stringify [Connect, SockOpen 0] createWebSocketManager)) = None \<and>
   sockets (disconnect (run sample_stringify [Connect, SockOpen 0] createWebSocketManager)) 2 =
     None \<and>
   ws (connect (disconnect
     (run sample_stringify [Connect, SockOpen 0] createWebSocketManager))) = Some 2 \<and>
   sockets (connect (disconnect
     (run sample_stringify [Connect, SockOpen 0] createWebSocketManager))) 2 = Some CONNECTING"
proof -
  let ?i = createWebSocketManager
  let ?m = "run sample_stringify [Connect, SockOpen 0] createWebSocketManager"
  have i: "0 \<le> connectionCount ?i" "connectionCount ?i = 0"
    by (simp_all add: createWebSocketManager_def)
  have m: "connectionCount ?m \<le> 1 \<and> handles_below ?m"
    by (simp add: eval_defs handles_below_def)
  have f: "fresh ?m = 2" by (simp add: eval_defs)
  have fd: "fresh (disconnect ?m) = 2" using m f by (simp add: disconnect_teardown)
  from C9_count_never_negative [of sample_stringify "[]" ?i Disconnect] i(1)
  have "0 \<le> connectionCount (step sample_stringify Disconnect ?i)" by blast
  moreover from C9_count_never_negative [of sample_stringify "[]" ?i Disconnect]
  have "connectionCount (disconnect ?i) = max 0 (connectionCount ?i - 1)" by blast
  ultimately have 1: "connectionCount (step sample_stringify Disconnect ?i) = 0"
    by (simp add: step_def i(2))
  from C9_count_never_negative [of sample_stringify "[]" ?m Connect] m
  have 2: "ws (disconnect ?m) = None \<and>
      sockets (disconnect ?m) (fresh (disconnect ?m)) = None \<and>
      ws (connect (disconnect ?m)) = Some (fresh (disconnect ?m)) \<and>
      sockets (connect (disconnect ?m)) (fresh (disconnect ?m)) = Some CONNECTING"
    by blast
  show ?thesis using 1 2 by (simp add: fd)
qed

section \<open>Properties of the chat input\<close>

lemma uploads_append: "uploads (xs @ ys) = uploads xs @ uploads ys"
  by (induction xs rule: uploads.induct) simp_all

lemma alerts_append: "alerts (xs @ ys) = alerts xs @ alerts ys"
  by (induction xs rule: alerts.induct) simp_all

lemma uploads_select_file:
  "uploads (select_file c u fs f) = (if accepted f then [f] else [])"
  by (auto simp: select_file_def accepted_def Let_def uploads_append split: sum.splits)

lemma uploads_handleFileSelect:
  "uploads (handleFileSelect c u r fs sel) = filter accepted sel"
  unfolding handleFileSelect_def
  by (induction sel) (simp_all add: uploads_append uploads_select_file)

subsection \<open>Submitting\<close>

text \<open>
  C10. \<open>handleSubmit\<close> calls \<open>onSendMessage\<close> exactly when the trimmed text is not
  empty or a file is attached, and the input is neither disabled nor streaming. The
  call passes the trimmed text and the uploaded files, each as an attachment with the
  same id, name, type, url and media type, in the same order; afterwards the text and
  the file list are empty and nothing else has changed. When no call is made the state
  is untouched.
\<close>

theorem C10_submit:
  "(\<forall>c a st'. handleSubmit disabled streaming st = (Some (c, a), st') \<longrightarrow>
      (trim (message st) \<noteq> [] \<or> files st \<noteq> []) \<and> \<not> disabled \<and> \<not> streaming \<and>
      c = trim (message st) \<and> a = map to_attachment (files st) \<and>
      st' = st\<lparr>message := [], files := []\<rparr>) \<and>
   ((trim (message st) \<noteq> [] \<or> files st \<noteq> []) \<and> \<not> disabled \<and> \<not> streaming \<longrightarrow>
      fst (handleSubmit disabled streaming st) \<noteq> None) \<and>
   (fst (handleSubmit disabled streaming st) = None \<longrightarrow>
      snd (handleSubmit disabled streaming st) = st) \<and>
   map fa_id (map to_attachment (files st)) = map uf_id (files st) \<and>
   map fa_name (map to_attachment (files st)) = map uf_name (files st) \<and>
   map fa_type (map to_attachment (files st)) = map uf_type (files st) \<and>
   map fa_url (map to_attachment (files st)) = map uf_url (files st) \<and>
   map fa_mime_type (map to_attachment (files st)) = map uf_mime_type (files st)"
  by (auto simp: handleSubmit_def Let_def to_attachment_def)

theorem C10_submit_witness:
  "handleSubmit False False
     \<lparr>message = js ''  hello  '', files = [], isUploading = False\<rparr> =
     (Some (js ''hello'', []), \<lparr>message = [], files = [], isUploading = False\<rparr>) \<and>
   handleSubmit False True
     \<lparr>message = js ''  hello  '', files = [], isUploading = False\<rparr> =
     (None, \<lparr>message = js ''  hello  '', files = [], isUploading = False\<rparr>)"
proof -
  let ?st = "\<lparr>message = js ''  hello  '', files = [], isUploading = False\<rparr>"
  have t: "trim (message ?st) = js ''hello''"
    by (simp add: trim_def js_def js_whitespace_def)
  then have h: "(trim (message ?st) \<noteq> [] \<or> files ?st \<noteq> []) \<and> \<not> False \<and> \<not> False"
    by (simp add: js_def)
  note c = C10_submit [of False False ?st]
  from c h have "fst (handleSubmit False False ?st) \<noteq> None" by blast
  then obtain x a st' where e: "handleSubmit False False ?st = (Some (x, a), st')"
    by (cases "handleSubmit False False ?st") auto
  with c have "x = trim (message ?st) \<and> a = map to_attachment (files ?st) \<and>
      st' = ?st\<lparr>message := [], files := []\<rparr>" by blast
  with e t have 1: "handleSubmit False False ?st =
      (Some (js ''hello'', []), \<lparr>message = [], files = [], isUploading = False\<rparr>)"
    by simp
  note d = C10_submit [of False True ?st]
  have "fst (handleSubmit False True ?st) = None"
  proof (rule ccontr)
    assume "fst (handleSubmit False True ?st) \<noteq> None"
    then obtain x a st' where "handleSubmit False True ?st = (Some (x, a), st')"
      by (cases "handleSubmit False True ?st") auto
    with d show False by blast
  qed
  with d have 2: "handleSubmit False True ?st = (None, ?st)"
    by (metis prod.collapse)
  show ?thesis using 1 2 by simp
qed

subsection \<open>Selecting files\<close>

text \<open>
  C5. The size limit is 26214400 bytes and the allow-list is the five media types. A
  selected file whose type is not in the list yields one alert naming the file and
  nothing else; a file of a listed type that is larger than the limit yields one alert
  naming the file and nothing else: no call of \<open>onUpload\<close>. The files handed to
  \<open>onUpload\<close> are exactly the selected files that pass both checks, in order; and
  when every upload succeeds, the alerts are exactly the rejections, one per rejected
  file, in order.
\<close>

theorem C5_upload_validation:
  "MAX_FILE_SIZE = 26214400 \<and>
   set ACCEPTED_TYPES =
     {js ''image/jpeg'', js ''image/png'', js ''image/gif'', js ''image/webp'',
      js ''application/pdf''} \<and>
   (file_type f \<notin> set ACCEPTED_TYPES \<longrightarrow>
      select_file createObjectURL onUpload fs f = [Alert (unsupported_message f)]) \<and>
   (file_type f \<in> set ACCEPTED_TYPES \<and> 26214400 < file_size f \<longrightarrow>
      select_file createObjectURL onUpload fs f = [Alert (too_large_message f)]) \<and>
   (file_type f \<in> set ACCEPTED_TYPES \<and> file_size f \<le> 26214400 \<longrightarrow>
      uploads (select_file createObjectURL onUpload fs f) = [f]) \<and>
   uploads (handleFileSelect createObjectURL onUpload ref fs selectedFiles) =
     filter (\<lambda>f. file_type f \<in> set ACCEPTED_TYPES \<and> file_size f \<le> 26214400) selectedFiles \<and>
   alerts (handleFileSelect createObjectURL (\<lambda>f. Inr (upl f)) ref fs selectedFiles) =
     map (\<lambda>f. if file_type f \<notin> set ACCEPTED_TYPES then unsupported_message f
               else too_large_message f)
       (filter (\<lambda>f. \<not> (file_type f \<in> set ACCEPTED_TYPES \<and> file_size f \<le> 26214400))
          selectedFiles)"
proof -
  have m: "MAX_FILE_SIZE = 26214400" by (simp add: MAX_FILE_SIZE_def)
  have a: "accepted = (\<lambda>f. file_type f \<in> set ACCEPTED_TYPES \<and> file_size f \<le> 26214400)"
    by (simp add: accepted_def m fun_eq_iff)
  have u: "uploads (handleFileSelect createObjectURL onUpload ref fs selectedFiles) =
     filter (\<lambda>f. file_type f \<in> set ACCEPTED_TYPES \<and> file_size f \<le> 26214400) selectedFiles"
    using uploads_handleFileSelect [of createObjectURL onUpload ref fs selectedFiles]
    by (simp only: a)
  have s1: "file_type f \<notin> set ACCEPTED_TYPES \<longrightarrow>
      select_file createObjectURL onUpload fs f = [Alert (unsupported_message f)]"
    by (simp add: select_file_def)
  have s2: "file_type f \<in> set ACCEPTED_TYPES \<and> 26214400 < file_size f \<longrightarrow>
      select_file createObjectURL onUpload fs f = [Alert (too_large_message f)]"
    by (simp add: select_file_def m)
  have s3: "file_type f \<in> set ACCEPTED_TYPES \<and> file_size f \<le> 26214400 \<longrightarrow>
      uploads (select_file createObjectURL onUpload fs f) = [f]"
    by (simp add: uploads_select_file a)
  have al: "alerts (handleFileSelect createObjectURL (\<lambda>f. Inr (upl f)) ref fs selectedFiles) =
     map (\<lambda>f. if file_type f \<notin> set ACCEPTED_TYPES then unsupported_message f
               else too_large_message f)
       (filter (\<lambda>f. \<not> (file_type f \<in> set ACCEPTED_TYPES \<and> file_size f \<le> 26214400))
          selectedFiles)"
    unfolding handleFileSelect_def
    by (induction selectedFiles)
      (auto simp: alerts_append select_file_def Let_def m)
  show ?thesis using m u s1 s2 s3 al by (simp add: ACCEPTED_TYPES_def)
qed

theorem C5_upload_validation_witness:
  "uploads (handleFileSelect sample_url (\<lambda>f. Inr (sample_upload f)) True []
     [\<lparr>file_name = js ''a.png'', file_type = js ''image/png'', file_size = 26214400\<rparr>,
      \<lparr>file_name = js ''b.txt'', file_type = js ''text/plain'', file_size = 10\<rparr>,
      \<lparr>file_name = js ''c.pdf'', file_type = js ''application/pdf'', file_size = 26214401\<rparr>]) =
     [\<lparr>file_name = js ''a.png'', file_type = js ''image/png'', file_size = 26214400\<rparr>] \<and>
   select_file sample_url (\<lambda>f. Inr (sample_upload f)) []
     \<lparr>file_name = js ''b.txt'', file_type = js ''text/plain'', file_size = 10\<rparr> =
     [Alert (js ''File type not supported: b.txt. Please upload images (JPEG, PNG, GIF, WebP) or PDFs.'')] \<and>
   select_file sample_url (\<lambda>f. Inr (sample_upload f)) []
     \<lparr>file_name = js ''c.pdf'', file_type = js ''application/pdf'', file_size = 26214401\<rparr> =
     [Alert (js ''File too large: c.pdf. Maximum size is 25MB.'')]"
proof -
  let ?a = "\<lparr>file_name = js ''a.png'', file_type = js ''image/png'', file_size = 26214400\<rparr>"
  let ?b = "\<lparr>file_name = js ''b.txt'', file_type = js ''text/plain'', file_size = 10\<rparr>"
  let ?c = "\<lparr>file_name = js ''c.pdf'', file_type = js ''application/pdf'', file_size = 26214401\<rparr>"
  let ?u = "\<lambda>f. Inr (sample_upload f) :: jsstring + uploadedFile"
  have b: "file_type ?b \<notin> set ACCEPTED_TYPES"
    by (simp add: ACCEPTED_TYPES_def js_def)
  have c: "file_type ?c \<in> set ACCEPTED_TYPES \<and> 26214400 < file_size ?c"
    by (simp add: ACCEPTED_TYPES_def)
  have f: "filter (\<lambda>f. file_type f \<in> set ACCEPTED_TYPES \<and> file_size f \<le> 26214400)
      [?a, ?b, ?c] = [?a]"
    by (simp add: ACCEPTED_TYPES_def js_def)
  from C5_upload_validation [of ?b sample_url ?u "[]" True "[?a, ?b, ?c]" sample_upload] b
  have 2: "select_file sample_url ?u [] ?b = [Alert (unsupported_message ?b)]" by blast
  from C5_upload_validation [of ?c sample_url ?u "[]" True "[?a, ?b, ?c]" sample_upload] c
  have 3: "select_file sample_url ?u [] ?c = [Alert (too_large_message ?c)]" by blast
  from C5_upload_validation [of ?b sample_url ?u "[]" True "[?a, ?b, ?c]" sample_upload]
  have "uploads (handleFileSelect sample_url ?u True [] [?a, ?b, ?c]) =
      filter (\<lambda>f. file_type f \<in> set ACCEPTED_TYPES \<and> file_size f \<le> 26214400) [?a, ?b, ?c]"
    by blast
  then have 1: "uploads (handleFileSelect sample_url ?u True [] [?a, ?b, ?c]) = [?a]"
    by (simp only: f)
  show ?thesis using 1 2 3
    by (simp add: unsupported_message_def too_large_message_def js_def)
qed

section \<open>Properties of the database\<close>

lemma delete_conversation_messages:
  "db_messages (delete_conversation cid db) =
     filter (\<lambda>m. m_conversation_id m \<noteq> cid) (db_messages db)"
  by (simp add: delete_conversation_def Let_def)

lemma delete_conversation_attachments:
  "db_attachments (delete_conversation cid db) =
     filter (\<lambda>a. a_conversation_id a \<noteq> cid \<and>
                  a_message_id a \<notin> set (map m_id (filter (\<lambda>m. m_conversation_id m = cid) (db_messages db))))
       (db_attachments db)"
  by (simp add: delete_conversation_def Let_def)

lemma delete_conversation_conversations:
  "db_conversations (delete_conversation cid db) =
     filter (\<lambda>c. c_id c \<noteq> cid) (db_conversations db)"
  by (simp add: delete_conversation_def Let_def)

lemma delete_conversation_foreign_keys:
  assumes "foreign_keys_hold db"
  shows "foreign_keys_hold (delete_conversation cid db)"
proof -
  have m: "\<And>m. m \<in> set (db_messages db) \<Longrightarrow> m_conversation_id m \<in> c_id ` set (db_conversations db)"
    using assms by (auto simp: foreign_keys_hold_def list_all_iff)
  have a: "\<And>a. a \<in> set (db_attachments db) \<Longrightarrow>
      a_message_id a \<in> m_id ` set (db_messages db) \<and>
      a_conversation_id a \<in> c_id ` set (db_conversations db)"
    using assms by (auto simp: foreign_keys_hold_def list_all_iff)
  have 1: "list_all (\<lambda>m. m_conversation_id m \<in>
        set (map c_id (db_conversations (delete_conversation cid db))))
      (db_messages (delete_conversation cid db))"
    unfolding list_all_iff delete_conversation_messages delete_conversation_conversations
    using m by auto
  have 2: "list_all (\<lambda>a. a_message_id a \<in> set (map m_id (db_messages (delete_conversation cid db))) \<and>
        a_conversation_id a \<in> set (map c_id (db_conversations (delete_conversation cid db))))
      (db_attachments (delete_conversation cid db))"
    unfolding list_all_iff delete_conversation_messages delete_conversation_conversations
      delete_conversation_attachments
  proof
    fix x assume x: "x \<in> set (filter (\<lambda>a. a_conversation_id a \<noteq> cid \<and>
        a_message_id a \<notin> set (map m_id (filter (\<lambda>m. m_conversation_id m = cid) (db_messages db))))
        (db_attachments db))"
    then have "a_message_id x \<in> m_id ` set (db_messages db)" using a by auto
    then obtain y where y: "y \<in> set (db_messages db)" "a_message_id x = m_id y" by auto
    then have "m_conversation_id y \<noteq> cid" using x by auto
    then have p: "a_message_id x \<in> set (map m_id (filter (\<lambda>m. m_conversation_id m \<noteq> cid) (db_messages db)))"
      using y by auto
    have q: "a_conversation_id x \<in> set (map c_id (filter (\<lambda>c. c_id c \<noteq> cid) (db_conversations db)))"
      using x a by auto
    show "a_message_id x \<in> set (map m_id (filter (\<lambda>m. m_conversation_id m \<noteq> cid) (db_messages db))) \<and>
          a_conversation_id x \<in> set (map c_id (filter (\<lambda>c. c_id c \<noteq> cid) (db_conversations db)))"
      using p q by simp
  qed
  show ?thesis using 1 2 by (simp add: foreign_keys_hold_def)
qed

subsection \<open>Deleting a conversation\<close>

text \<open>
  C4. Deleting a conversation keeps exactly the messages of the other conversations, and
  exactly the attachments that name another conversation and whose message is not a
  message of the deleted one. So afterwards no message and no attachment names the
  deleted conversation, no attachment names one of its messages, the conversation is
  gone, and foreign keys that held before still hold.
\<close>

theorem C4_cascade:
  "db_messages (delete_conversation cid db) =
     filter (\<lambda>m. m_conversation_id m \<noteq> cid) (db_messages db) \<and>
   db_attachments (delete_conversation cid db) =
     filter (\<lambda>a. a_conversation_id a \<noteq> cid \<and>
                  a_message_id a \<notin> set (map m_id (filter (\<lambda>m. m_conversation_id m = cid) (db_messages db))))
       (db_attachments db) \<and>
   list_all (\<lambda>m. m_conversation_id m \<noteq> cid) (db_messages (delete_conversation cid db)) \<and>
   list_all (\<lambda>a. a_conversation_id a \<noteq> cid \<and>
                 a_message_id a \<notin> set (map m_id (filter (\<lambda>m. m_conversation_id m = cid) (db_messages db))))
     (db_attachments (delete_conversation cid db)) \<and>
   cid \<notin> c_id ` set (db_conversations (delete_conversation cid db)) \<and>
   (foreign_keys_hold db \<longrightarrow> foreign_keys_hold (delete_conversation cid db))"
  by (auto simp: delete_conversation_messages delete_conversation_attachments
      delete_conversation_conversations delete_conversation_foreign_keys list_all_iff)

theorem C4_cascade_witness:
  "map m_id (db_messages (delete_conversation 1 sample_rows)) = [20] \<and>
   map a_id (db_attachments (delete_conversation 1 sample_rows)) = [200] \<and>
   foreign_keys_hold (delete_conversation 1 sample_rows)"
proof -
  have fk: "foreign_keys_hold sample_rows"
    by (simp add: foreign_keys_hold_def sample_rows_def)
  have g: "set (map m_id (filter (\<lambda>m. m_conversation_id m = 1) (db_messages sample_rows))) = {10}"
    by (simp add: sample_rows_def)
  note c = C4_cascade [of 1 sample_rows]
  from c have "db_messages (delete_conversation 1 sample_rows) =
     filter (\<lambda>m. m_conversation_id m \<noteq> 1) (db_messages sample_rows)" by blast
  then have 1: "map m_id (db_messages (delete_conversation 1 sample_rows)) = [20]"
    by (simp add: sample_rows_def)
  from c have "db_attachments (delete_conversation 1 sample_rows) =
     filter (\<lambda>a. a_conversation_id a \<noteq> 1 \<and>
         a_message_id a \<notin> set (map m_id (filter (\<lambda>m. m_conversation_id m = 1) (db_messages sample_rows))))
       (db_attachments sample_rows)" by blast
  then have 2: "map a_id (db_attachments (delete_conversation 1 sample_rows)) = [200]"
    by (simp only: g) (simp add: sample_rows_def)
  from c fk have 3: "foreign_keys_hold (delete_conversation 1 sample_rows)" by blast
  show ?thesis using 1 2 3 by simp
qed

section \<open>Properties of the chat page\<close>

lemma rename_ids:
  "map conv_id (map (\<lambda>c. if conv_id c = i then c\<lparr>conv_title := t\<rparr> else c) cs) = map conv_id cs"
  by (induction cs) simp_all

lemma rename_created:
  "map conv_created_at (map (\<lambda>c. if conv_id c = i then c\<lparr>conv_title := t\<rparr> else c) cs) =
   map conv_created_at cs"
  by (induction cs) simp_all

lemma rename_titles:
  "map conv_title (map (\<lambda>c. if conv_id c = i then c\<lparr>conv_title := t\<rparr> else c) cs) =
   map (\<lambda>c. if conv_id c = i then t else conv_title c) cs"
  by (induction cs) simp_all

subsection \<open>The title of a conversation\<close>

text \<open>
  C8. Creating a conversation without a title: the client posts the title
  \<open>New Conversation\<close>, and the \<open>conversations\<close> table gives a row inserted without
  a title, or with the posted one, the title \<open>New Conversation\<close> (with the generated
  id and the time of the insert); that row is what the insert returns. Renaming a
  conversation and the title-updated event overwrite the title of the conversation they
  name and leave every identifier and every creation timestamp as it was.
\<close>

theorem C8_default_title:
  "createConversation_body None = JObj [(js ''title'', JStr (js ''New Conversation''))] \<and>
   (gen \<notin> set (map c_id (db_conversations db)) \<longrightarrow>
      insert_conversation gen now None None None None db =
        Inr (\<lparr>c_id = gen, c_title = js ''New Conversation'', c_created_at = now,
              c_updated_at = now\<rparr>,
             db\<lparr>db_conversations := db_conversations db @
               [\<lparr>c_id = gen, c_title = js ''New Conversation'', c_created_at = now,
                 c_updated_at = now\<rparr>]\<rparr>) \<and>
      insert_conversation gen now None (Some (js ''New Conversation'')) None None db =
        insert_conversation gen now None None None None db) \<and>
   map conv_id (conversations (handleRenameConversation ok i t st)) =
     map conv_id (conversations st) \<and>
   map conv_created_at (conversations (handleRenameConversation ok i t st)) =
     map conv_created_at (conversations st) \<and>
   map conv_title (conversations (handleRenameConversation True i t st)) =
     map (\<lambda>c. if conv_id c = i then t else conv_title c) (conversations st) \<and>
   map conv_id (conversations (handleMessage clk (Title_updated i t) st)) =
     map conv_id (conversations st) \<and>
   map conv_created_at (conversations (handleMessage clk (Title_updated i t) st)) =
     map conv_created_at (conversations st) \<and>
   map conv_title (conversations (handleMessage clk (Title_updated i t) st)) =
     map (\<lambda>c. if conv_id c = i then t else conv_title c) (conversations st)"
proof -
  have l: "varchar 255 (js ''New Conversation'') = Inr (js ''New Conversation'')"
    by (simp add: varchar_def js_def high_surrogate_def low_surrogate_def)
  have a: "createConversation_body None = JObj [(js ''title'', JStr (js ''New Conversation''))]"
    by (simp add: createConversation_body_def)
  have b: "gen \<notin> set (map c_id (db_conversations db)) \<longrightarrow>
      insert_conversation gen now None None None None db =
        Inr (\<lparr>c_id = gen, c_title = js ''New Conversation'', c_created_at = now,
              c_updated_at = now\<rparr>,
             db\<lparr>db_conversations := db_conversations db @
               [\<lparr>c_id = gen, c_title = js ''New Conversation'', c_created_at = now,
                 c_updated_at = now\<rparr>]\<rparr>) \<and>
      insert_conversation gen now None (Some (js ''New Conversation'')) None None db =
        insert_conversation gen now None None None None db"
    using l by (simp add: insert_conversation_def Let_def)
  show ?thesis
    using a b
    by (simp add: handleRenameConversation_def handleMessage_def rename_ids rename_created
        rename_titles)
qed

theorem C8_default_title_witness:
  "fst (projr (insert_conversation 5 300 None None None None sample_db)) =
     \<lparr>c_id = 5, c_title = js ''New Conversation'', c_created_at = 300, c_updated_at = 300\<rparr> \<and>
   conversations (handleRenameConversation True (js ''1'') (js ''Trip'') sample_chat) =
     [\<lparr>conv_id = js ''1'', conv_title = js ''Trip'',
          conv_created_at = js ''t0'', conv_updated_at = js ''t0''\<rparr>,
      \<lparr>conv_id = js ''2'', conv_title = js ''Other'',
          conv_created_at = js ''t1'', conv_updated_at = js ''t1''\<rparr>]"
proof -
  have h: "5 \<notin> set (map c_id (db_conversations sample_db))"
    by (simp add: sample_db_def)
  note c = C8_default_title [of 5 sample_db 300 True "js ''1''" "js ''Trip''" sample_chat "[]"]
  from c h have "insert_conversation 5 300 None None None None sample_db =
        Inr (\<lparr>c_id = 5, c_title = js ''New Conversation'', c_created_at = 300,
              c_updated_at = 300\<rparr>,
             sample_db\<lparr>db_conversations := db_conversations sample_db @
               [\<lparr>c_id = 5, c_title = js ''New Conversation'', c_created_at = 300,
                 c_updated_at = 300\<rparr>]\<rparr>)" by blast
  then have 1: "fst (projr (insert_conversation 5 300 None None None None sample_db)) =
     \<lparr>c_id = 5, c_title = js ''New Conversation'', c_created_at = 300, c_updated_at = 300\<rparr>"
    by simp
  let ?r = "conversations (handleRenameConversation True (js ''1'') (js ''Trip'') sample_chat)"
  from c have "map conv_id ?r = map conv_id (conversations sample_chat) \<and>
      map conv_created_at ?r = map conv_created_at (conversations sample_chat) \<and>
      map conv_title ?r =
        map (\<lambda>c. if conv_id c = js ''1'' then js ''Trip'' else conv_title c)
          (conversations sample_chat)" by blast
  then have i: "map conv_id ?r = [js ''1'', js ''2'']"
    and k: "map conv_created_at ?r = [js ''t0'', js ''t1'']"
    and t: "map conv_title ?r = [js ''Trip'', js ''Other'']"
    by (simp_all add: sample_chat_def js_def)
  have u: "map conv_updated_at ?r = [js ''t0'', js ''t1'']"
    by (simp add: handleRenameConversation_def sample_chat_def)
  obtain x y where xy: "?r = [x, y]"
    using i by (auto simp: map_eq_Cons_conv)
  have "x = \<lparr>conv_id = js ''1'', conv_title = js ''Trip'',
          conv_created_at = js ''t0'', conv_updated_at = js ''t0''\<rparr>"
    using i k t u xy by (cases x) simp
  moreover have "y = \<lparr>conv_id = js ''2'', conv_title = js ''Other'',
          conv_created_at = js ''t1'', conv_updated_at = js ''t1''\<rparr>"
    using i k t u xy by (cases y) simp
  ultimately have 2: "?r = [\<lparr>conv_id = js ''1'', conv_title = js ''Trip'',
          conv_created_at = js ''t0'', conv_updated_at = js ''t0''\<rparr>,
      \<lparr>conv_id = js ''2'', conv_title = js ''Other'',
          conv_created_at = js ''t1'', conv_updated_at = js ''t1''\<rparr>]"
    using xy by simp
  show ?thesis using 1 2 by simp
qed

end
